theory Spec2Isabelle
  imports Main "HOL-Library.Sublist"
begin

section \<open>Python values\<close>

text \<open>
  The exceptions the command line distinguishes. \<open>FileNotFoundError\<close> and
  \<open>ValueError\<close> are the two classes \<open>cli.py\<close> names in its \<open>except\<close> clauses;
  \<open>StoreError\<close> and \<open>LogicError\<close> are the Store's failures of the specification;
  \<open>RuntimeError\<close> stands for any other subclass of \<open>Exception\<close>.
  \<open>KeyboardInterrupt\<close> and \<open>SystemExit\<close> derive from \<open>BaseException\<close> only, so
  \<open>except Exception\<close> does not catch them.
\<close>

datatype exn =
    FileNotFoundError string
  | ValueError string
  | StoreError string
  | LogicError string
  | RuntimeError string
  | KeyboardInterrupt
  | SystemExit int

fun is_Exception :: "exn \<Rightarrow> bool" where
  "is_Exception KeyboardInterrupt = False"
| "is_Exception (SystemExit n) = False"
| "is_Exception e = True"

subsection \<open>Decimal rendering of integers\<close>

definition digit_char :: "nat \<Rightarrow> char" where
  "digit_char d = ''0123456789'' ! d"

fun str_nat :: "nat \<Rightarrow> string" where
  "str_nat n = (if n < 10 then [digit_char n] else str_nat (n div 10) @ [digit_char (n mod 10)])"

declare str_nat.simps [simp del]

text \<open>\<open>str(i)\<close> of a Python integer.\<close>

definition str_int :: "int \<Rightarrow> string" where
  "str_int i = (if i < 0 then ''-'' @ str_nat (nat (- i)) else str_nat (nat i))"

text \<open>
  The format specification \<open>02d\<close>: decimal digits, padded with zeros on the left to a
  width of two characters; the sign of a negative number counts towards the width.
\<close>

definition format_02d :: "int \<Rightarrow> string" where
  "format_02d i =
     (if i < 0 then ''-'' @ str_nat (nat (- i))
      else (let s = str_nat (nat i) in if length s < 2 then ''0'' @ s else s))"

text \<open>\<open>str(e)\<close> of an exception: its message.\<close>

fun str_exn :: "exn \<Rightarrow> string" where
  "str_exn (FileNotFoundError m) = m"
| "str_exn (ValueError m) = m"
| "str_exn (StoreError m) = m"
| "str_exn (LogicError m) = m"
| "str_exn (RuntimeError m) = m"
| "str_exn KeyboardInterrupt = []"
| "str_exn (SystemExit n) = str_int n"

section \<open>Home Assistant configuration (\<open>homeassistant.py\<close>)\<close>

text \<open>
  The f-string of \<open>generate_yaml_config\<close>, line by line, after the doubled braces of the
  template have been reduced: every line of the literal ends with a newline.
\<close>

definition yaml_config_lines :: "string \<Rightarrow> string list" where
  \<open>yaml_config_lines hostname =
    [''mqtt:'',
     ''  sensor:'',
     ''    # Daily Total Active Time (formatted as hours:minutes)'',
     ''    - name: "WorkTracker Daily Time"'',
     ''      unique_id: "worktracker_'' @ hostname @ ''_daily_time"'',
     ''      state_topic: "worktracker/'' @ hostname @ ''/status"'',
     ''      value_template: >'',
     ''        {% set total_seconds = value_json.total_time | int %}'',
     ''        {% set hours = (total_seconds / 3600) | int %}'',
     ''        {% set minutes = ((total_seconds % 3600) / 60) | int %}'',
     ''        {% if hours > 0 %}{{ hours }}h {% if minutes > 0 %}{{ minutes }}m{% endif %}{% else %}{{ minutes }}m{% endif %}'',
     ''      icon: "mdi:clock-outline"'',
     ''      device:'',
     ''        identifiers:'',
     ''          - "worktracker_'' @ hostname @ ''"'',
     ''        name: "WorkTracker - '' @ hostname @ ''"'',
     ''        manufacturer: "WorkTracker"'',
     ''        model: "WorkTracker"'']\<close>

definition unlines :: "string list \<Rightarrow> string" where
  "unlines ls = concat (map (\<lambda>l. l @ [CHR 0x0A]) ls)"

definition yaml_config :: "string \<Rightarrow> string" where
  "yaml_config hostname = unlines (yaml_config_lines hostname)"

text \<open>
  \<open>generate_yaml_config(hostname)\<close>. The first argument is what the ambient lookup
  \<open>socket.gethostname()\<close> yields on this machine; the result pairs the ambient lookups
  performed with the returned string.
\<close>

datatype ambient = GetHostname

definition generate_yaml_config :: "string \<Rightarrow> string option \<Rightarrow> ambient list \<times> string" where
  "generate_yaml_config gethostname hostname =
     (case hostname of
        None \<Rightarrow> ([GetHostname], yaml_config gethostname)
      | Some h \<Rightarrow> ([], yaml_config h))"

section \<open>The command line (\<open>cli.py\<close>)\<close>

subsection \<open>Records of the collaborating modules\<close>

text \<open>
  \<open>DailyLog\<close>, the row of one calendar date. A naive local \<open>datetime\<close> is counted in
  whole seconds of local civil time, a \<open>date\<close> in days; \<open>total_active_time\<close> is a
  number of seconds.
\<close>

record DailyLog =
  log_date :: int
  total_active_time :: int
  last_update :: int

record config =
  broker_ip :: string
  port :: int
  topic_prefix :: string
  update_interval :: int
  qos :: int

subsection \<open>Effects\<close>

text \<open>
  \<open>cli.py\<close> imports \<open>Database\<close>, \<open>MQTTClient\<close>, \<open>load_config\<close>, \<open>ServiceManager\<close> and
  \<open>WorkTracker\<close> from modules that are not part of the sources at hand. Each of their
  operations is therefore a parameter: a function on the state \<open>'s\<close> of the machine
  outside the command line, which either raises or returns a value.
\<close>

type_synonym ('a, 's) operation = "'s \<Rightarrow> (exn + 'a) \<times> 's"

record 's collaborators =
  is_timer_installed :: "(bool, 's) operation"
  is_timer_running :: "(bool, 's) operation"
  is_timer_enabled :: "(bool, 's) operation"
  WorkTracker_new :: "(unit, 's) operation"
  get_current_status :: "(string \<times> int, 's) operation"
  update_time :: "(unit, 's) operation"
  Database_new :: "(unit, 's) operation"
  get_today_log :: "(DailyLog, 's) operation"
  db_close :: "(unit, 's) operation"
  load_config :: "(config, 's) operation"
  MQTTClient_new :: "config \<Rightarrow> (unit, 's) operation"
  client_connect :: "(bool, 's) operation"
  client_publish_status :: "(bool, 's) operation"
  client_disconnect :: "(unit, 's) operation"
  client_start :: "(bool, 's) operation"
  client_stop :: "(unit, 's) operation"
  client_is_running :: "(bool, 's) operation"
  time_sleep :: "(unit, 's) operation"

text \<open>The calls the command line makes, in the order it makes them.\<close>

datatype call =
    ServiceManager_is_timer_installed
  | ServiceManager_is_timer_running
  | ServiceManager_is_timer_enabled
  | WorkTracker_init
  | WorkTracker_get_current_status
  | WorkTracker_update_time
  | Database_init
  | Database_get_today_log
  | Database_close
  | Load_config
  | MQTTClient_init
  | MQTTClient_connect
  | MQTTClient_publish_status
  | MQTTClient_disconnect
  | MQTTClient_start
  | MQTTClient_stop
  | MQTTClient_is_running
  | Time_sleep
  | Signal_signal

text \<open>
  What one run of a command has done so far: the lines printed, the lines logged with
  \<open>logging.error\<close>, the calls made, and the state of the machine outside.
\<close>

record 's world =
  stdout :: "string list"
  logged :: "string list"
  calls :: "call list"
  env :: 's

type_synonym ('a, 's) prog = "'s world \<Rightarrow> (exn + 'a) \<times> 's world"

definition ret :: "'a \<Rightarrow> ('a, 's) prog" where
  "ret x = (\<lambda>w. (Inr x, w))"

definition raise :: "exn \<Rightarrow> ('a, 's) prog" where
  "raise e = (\<lambda>w. (Inl e, w))"

text \<open>Sequencing: an exception of the first statement skips the rest.\<close>

definition bnd :: "('a, 's) prog \<Rightarrow> ('a \<Rightarrow> ('b, 's) prog) \<Rightarrow> ('b, 's) prog" where
  "bnd m f = (\<lambda>w. case m w of (Inl e, w') \<Rightarrow> (Inl e, w') | (Inr x, w') \<Rightarrow> f x w')"

text \<open>\<open>try: m except ... as e: h e\<close>; a handler re-raises what its clauses do not match.\<close>

definition try_except :: "('a, 's) prog \<Rightarrow> (exn \<Rightarrow> ('a, 's) prog) \<Rightarrow> ('a, 's) prog" where
  "try_except m h = (\<lambda>w. case m w of (Inl e, w') \<Rightarrow> h e w' | (Inr x, w') \<Rightarrow> (Inr x, w'))"

definition print :: "string \<Rightarrow> (unit, 's) prog" where
  "print line = (\<lambda>w. (Inr (), w\<lparr>stdout := stdout w @ [line]\<rparr>))"

definition logging_error :: "string \<Rightarrow> (unit, 's) prog" where
  "logging_error line = (\<lambda>w. (Inr (), w\<lparr>logged := logged w @ [line]\<rparr>))"

definition call :: "call \<Rightarrow> ('a, 's) operation \<Rightarrow> ('a, 's) prog" where
  "call c operation =
     (\<lambda>w. case operation (env w) of (r, s') \<Rightarrow> (r, w\<lparr>calls := calls w @ [c], env := s'\<rparr>))"

text \<open>A call into the standard library that changes nothing the model observes.\<close>

definition stdlib :: "call \<Rightarrow> (unit, 's) prog" where
  "stdlib c = (\<lambda>w. (Inr (), w\<lparr>calls := calls w @ [c]\<rparr>))"

text \<open>The check mark U+2713 of the success messages, in UTF-8.\<close>

definition check_mark :: string where
  "check_mark = [CHR 0xE2, CHR 0x9C, CHR 0x93]"

subsection \<open>\<open>WorkTrackerCLI.status\<close>\<close>

text \<open>\<open>strftime("%H:%M")\<close> of a naive local time counted in seconds.\<close>

definition strftime_HM :: "int \<Rightarrow> string" where
  "strftime_HM t = format_02d ((t mod 86400) div 3600) @ '':'' @ format_02d ((t mod 3600) div 60)"

definition yes_no :: "bool \<Rightarrow> string" where
  "yes_no b = (if b then ''Yes'' else ''No'')"

text \<open>The statements inside \<open>try:\<close>; leaving the block normally goes on to \<open>return 0\<close>.\<close>

definition status_try :: "'s collaborators \<Rightarrow> (int, 's) prog" where
  "status_try C =
     bnd (call WorkTracker_get_current_status (get_current_status C)) (\<lambda>(status_str, total_seconds).
     bnd (print ([CHR 0x0A] @ ''Current state:'')) (\<lambda>_.
     bnd (print (''  Status: '' @ status_str)) (\<lambda>_.
     bnd (call Database_init (Database_new C)) (\<lambda>_.
     bnd (call Database_get_today_log (get_today_log C)) (\<lambda>today_log.
     bnd (call Database_close (db_close C)) (\<lambda>_.
     bnd (print ([CHR 0x0A] @ ''Today'' @ [CHR 0x27] @ ''s summary:'')) (\<lambda>_.
     let hours = total_active_time today_log div 3600;
         minutes = (total_active_time today_log mod 3600) div 60;
         last_update_str = strftime_HM (last_update today_log)
     in
     bnd (print (''  Total active time: '' @ format_02d hours @ '':'' @ format_02d minutes)) (\<lambda>_.
     bnd (print (''  Last update: '' @ last_update_str)) (\<lambda>_.
     ret 0)))))))))"

text \<open>\<open>except Exception as e\<close> of \<open>status\<close>.\<close>

definition status_except :: "exn \<Rightarrow> (int, 's) prog" where
  "status_except e =
     (if is_Exception e
      then bnd (print ([CHR 0x0A] @ ''ERROR: Failed to get status: '' @ str_exn e)) (\<lambda>_. ret 1)
      else raise e)"

definition WorkTrackerCLI_status :: "'s collaborators \<Rightarrow> (int, 's) prog" where
  "WorkTrackerCLI_status C =
     bnd (call ServiceManager_is_timer_installed (is_timer_installed C)) (\<lambda>installed.
     if \<not> installed then
       bnd (print ''Timer status: Not installed'') (\<lambda>_.
       bnd (print ([CHR 0x0A] @ ''Run '' @ [CHR 0x27] @ ''worktracker install'' @ [CHR 0x27]
                   @ '' to set up tracking.'')) (\<lambda>_.
       ret 1))
     else
       bnd (call ServiceManager_is_timer_running (is_timer_running C)) (\<lambda>is_running.
       bnd (call ServiceManager_is_timer_enabled (is_timer_enabled C)) (\<lambda>is_enabled.
       bnd (print ''Timer status:'') (\<lambda>_.
       bnd (print ''  Installed: Yes'') (\<lambda>_.
       bnd (print (''  Enabled: '' @ yes_no is_enabled)) (\<lambda>_.
       bnd (print (''  Running: '' @ yes_no is_running)) (\<lambda>_.
       bnd (call WorkTracker_init (WorkTracker_new C)) (\<lambda>_.
       try_except (status_try C) status_except))))))))"

subsection \<open>\<open>WorkTrackerCLI.update\<close>\<close>

definition WorkTrackerCLI_update :: "'s collaborators \<Rightarrow> (int, 's) prog" where
  "WorkTrackerCLI_update C =
     bnd (call WorkTracker_init (WorkTracker_new C)) (\<lambda>_.
     try_except
       (bnd (call WorkTracker_update_time (update_time C)) (\<lambda>_. ret 0))
       (\<lambda>e. if is_Exception e
             then bnd (logging_error (''Update error: '' @ str_exn e)) (\<lambda>_. ret 1)
             else raise e))"

subsection \<open>The MQTT commands\<close>

text \<open>
  The two \<open>except\<close> clauses that follow \<open>load_config()\<close> in \<open>mqtt_start\<close>, \<open>mqtt_status\<close>
  and \<open>mqtt_publish\<close>: both print the cause and return 1 from the command. \<open>Inl rc\<close> is
  the command returning \<open>rc\<close> at once, \<open>Inr x\<close> the \<open>try\<close> block left normally.
\<close>

definition config_except :: "exn \<Rightarrow> (int + 'a, 's) prog" where
  "config_except e =
     (case e of
        FileNotFoundError m \<Rightarrow> bnd (print (''ERROR: '' @ str_exn e)) (\<lambda>_. ret (Inl 1))
      | ValueError m \<Rightarrow> bnd (print (''ERROR: Invalid configuration: '' @ str_exn e)) (\<lambda>_. ret (Inl 1))
      | _ \<Rightarrow> raise e)"

definition WorkTrackerCLI_mqtt_status :: "'s collaborators \<Rightarrow> (int, 's) prog" where
  "WorkTrackerCLI_mqtt_status C =
     bnd (try_except
            (bnd (call Load_config (load_config C)) (\<lambda>config.
             bnd (print ''MQTT Configuration:'') (\<lambda>_.
             bnd (print (''  Broker: '' @ broker_ip config @ '':'' @ str_int (port config))) (\<lambda>_.
             bnd (print (''  Topic prefix: '' @ topic_prefix config)) (\<lambda>_.
             bnd (print (''  Update interval: '' @ str_int (update_interval config) @ ''s'')) (\<lambda>_.
             bnd (print (''  QoS: '' @ str_int (qos config))) (\<lambda>_.
             ret (Inr ()))))))))
            config_except) (\<lambda>r.
     case r of
       Inl rc \<Rightarrow> ret rc
     | Inr _ \<Rightarrow>
         bnd (print ([CHR 0x0A] @ ''NOTE: Use '' @ [CHR 0x27] @ ''worktracker mqtt start'' @ [CHR 0x27]
                     @ '' to run the publisher.'')) (\<lambda>_.
         ret 0))"

definition WorkTrackerCLI_mqtt_publish :: "'s collaborators \<Rightarrow> (int, 's) prog" where
  "WorkTrackerCLI_mqtt_publish C =
     bnd (print ''Publishing status to MQTT broker...'') (\<lambda>_.
     bnd (try_except
            (bnd (call Load_config (load_config C)) (\<lambda>config. ret (Inr config)))
            config_except) (\<lambda>r.
     case r of
       Inl rc \<Rightarrow> ret rc
     | Inr config \<Rightarrow>
         bnd (call WorkTracker_init (WorkTracker_new C)) (\<lambda>_.
         bnd (call MQTTClient_init (MQTTClient_new C config)) (\<lambda>_.
         bnd (call MQTTClient_connect (client_connect C)) (\<lambda>connected.
         if \<not> connected then
           bnd (print ''ERROR: Failed to connect to MQTT broker'') (\<lambda>_. ret 1)
         else
           bnd (call MQTTClient_publish_status (client_publish_status C)) (\<lambda>published.
           if published then
             bnd (print (check_mark @ '' Status published successfully'')) (\<lambda>_.
             bnd (call MQTTClient_disconnect (client_disconnect C)) (\<lambda>_.
             ret 0))
           else
             bnd (print ''ERROR: Failed to publish status'') (\<lambda>_.
             bnd (call MQTTClient_disconnect (client_disconnect C)) (\<lambda>_.
             ret 1))))))))"

text \<open>
  \<open>mqtt_start\<close> up to its waiting loop. \<open>Some rc\<close> is the command returning \<open>rc\<close> before
  the loop, \<open>None\<close> the loop reached with both signal handlers registered.
\<close>

definition mqtt_start_setup :: "'s collaborators \<Rightarrow> (int option, 's) prog" where
  "mqtt_start_setup C =
     bnd (print ''Starting MQTT publisher...'') (\<lambda>_.
     bnd (try_except
            (bnd (call Load_config (load_config C)) (\<lambda>config. ret (Inr config)))
            config_except) (\<lambda>r.
     case r of
       Inl rc \<Rightarrow> ret (Some rc)
     | Inr config \<Rightarrow>
         bnd (call WorkTracker_init (WorkTracker_new C)) (\<lambda>_.
         bnd (call MQTTClient_init (MQTTClient_new C config)) (\<lambda>_.
         bnd (call MQTTClient_start (client_start C)) (\<lambda>started.
         if \<not> started then
           bnd (print ''ERROR: Failed to start MQTT publisher'') (\<lambda>_. ret (Some 1))
         else
           bnd (print (check_mark @ '' MQTT publisher started'')) (\<lambda>_.
           bnd (print ''Press Ctrl+C to stop...'') (\<lambda>_.
           bnd (stdlib Signal_signal) (\<lambda>_.
           bnd (stdlib Signal_signal) (\<lambda>_.
           ret None)))))))))"

text \<open>\<open>signal_handler\<close>: \<open>sys.exit(0)\<close> raises \<open>SystemExit\<close>.\<close>

definition signal_handler :: "'s collaborators \<Rightarrow> (unit, 's) prog" where
  "signal_handler C =
     bnd (print ([CHR 0x0A] @ ''Stopping MQTT publisher...'')) (\<lambda>_.
     bnd (call MQTTClient_stop (client_stop C)) (\<lambda>_.
     raise (SystemExit 0)))"

text \<open>
  \<open>while client.is_running(): time.sleep(1)\<close>. The loop runs for as long as the client
  says it is running, so it need not end: \<open>None\<close> is the loop that never ends.
\<close>

partial_function (option) keep_running ::
  "'s collaborators \<Rightarrow> 's world \<Rightarrow> ((exn + unit) \<times> 's world) option" where
  "keep_running C w =
     (case call MQTTClient_is_running (client_is_running C) w of
        (Inl e, w1) \<Rightarrow> Some (Inl e, w1)
      | (Inr running, w1) \<Rightarrow>
          if running then
            (case call Time_sleep (time_sleep C) w1 of
               (Inl e, w2) \<Rightarrow> Some (Inl e, w2)
             | (Inr _, w2) \<Rightarrow> keep_running C w2)
          else Some (Inr (), w1))"

text \<open>
  \<open>mqtt_start\<close>. An interrupt that reaches the loop as \<open>KeyboardInterrupt\<close> runs
  \<open>signal_handler\<close>, as the registered handler does for a signal.
\<close>

definition WorkTrackerCLI_mqtt_start ::
  "'s collaborators \<Rightarrow> 's world \<Rightarrow> ((exn + int) \<times> 's world) option" where
  "WorkTrackerCLI_mqtt_start C w =
     (case mqtt_start_setup C w of
        (Inl e, w1) \<Rightarrow> Some (Inl e, w1)
      | (Inr (Some rc), w1) \<Rightarrow> Some (Inr rc, w1)
      | (Inr None, w1) \<Rightarrow>
          (case keep_running C w1 of
             None \<Rightarrow> None
           | Some (Inl e, w2) \<Rightarrow>
               if e = KeyboardInterrupt
               then Some (bnd (signal_handler C) (\<lambda>_. ret 0) w2)
               else Some (Inl e, w2)
           | Some (Inr _, w2) \<Rightarrow> Some (Inr 0, w2)))"

section \<open>The Store and the accrual engine\<close>

text \<open>
  \<open>database.py\<close>, \<open>tracker.py\<close> and \<open>mqtt_client.py\<close> are imported by \<open>cli.py\<close> and are
  not among the sources at hand; the definitions of this section follow the
  specification's contracts of the Store (4.1), of the accrual engine (4.2) and of the
  published topic (6).
\<close>

text \<open>Modelled from the spec: the calendar date of a naive local time (\<open>database.py\<close> is missing).\<close>

definition local_date :: "int \<Rightarrow> int" where
  "local_date t = t div 86400"

datatype store_call = Get_today | Upsert_today

text \<open>
  Modelled from the spec: the Store of \<open>database.py\<close> (missing). \<open>db\<close> holds at most one
  \<open>DailyLog\<close> per date; \<open>reachable\<close> says whether the storage layer answers;
  \<open>store_calls\<close> lists the operations called on it.
\<close>

record store =
  db :: "int \<rightharpoonup> DailyLog"
  reachable :: bool
  store_calls :: "store_call list"

text \<open>
  Modelled from the spec: \<open>get_today\<close> of \<open>database.py\<close> (missing). It returns the row of
  the current local date and creates a zero-valued row, last updated now, when there is
  none; a storage failure is a \<open>StoreError\<close>.
\<close>

definition Store_get_today :: "int \<Rightarrow> (DailyLog, store) operation" where
  "Store_get_today now st =
     (let st1 = st\<lparr>store_calls := store_calls st @ [Get_today]\<rparr>; today = local_date now in
      if \<not> reachable st then (Inl (StoreError ''storage unreachable''), st1)
      else case db st today of
             Some row \<Rightarrow> (Inr row, st1)
           | None \<Rightarrow>
               (let row = \<lparr>log_date = today, total_active_time = 0, last_update = now\<rparr>
                in (Inr row, st1\<lparr>db := (db st)(today \<mapsto> row)\<rparr>)))"

text \<open>
  Modelled from the spec: \<open>upsert_today\<close> of \<open>database.py\<close> (missing). It writes the new
  total for the current date, creating the row if necessary; a total below the stored
  one is a logic error signalled to the caller, and nothing is written.
\<close>

definition Store_upsert_today :: "int \<Rightarrow> int \<Rightarrow> int \<Rightarrow> (unit, store) operation" where
  "Store_upsert_today now new_total new_last_update st =
     (let st1 = st\<lparr>store_calls := store_calls st @ [Upsert_today]\<rparr>; today = local_date now;
          row = \<lparr>log_date = today, total_active_time = new_total, last_update = new_last_update\<rparr>
      in
      if \<not> reachable st then (Inl (StoreError ''storage unreachable''), st1)
      else case db st today of
             Some old \<Rightarrow>
               if new_total < total_active_time old
               then (Inl (LogicError ''total_active_time would decrease''), st1)
               else (Inr (), st1\<lparr>db := (db st)(today \<mapsto> row)\<rparr>)
           | None \<Rightarrow> (Inr (), st1\<lparr>db := (db st)(today \<mapsto> row)\<rparr>))"

text \<open>
  Modelled from the spec: the two policy constants of \<open>tracker.py\<close> (missing), the idle
  threshold and the largest gap one tick may credit, both in seconds.
\<close>

record policy =
  idle_threshold :: int
  max_tick_gap :: int

text \<open>Modelled from the spec: \<open>clamp(x, lo, hi)\<close> of the engine's pseudo-code (\<open>tracker.py\<close> is missing).\<close>

definition clamp :: "int \<Rightarrow> int \<Rightarrow> int \<Rightarrow> int" where
  "clamp x lo hi = (if x < lo then lo else if hi < x then hi else x)"

text \<open>
  Modelled from the spec: whether a tick is Active (\<open>tracker.py\<close> is missing). The sample
  is the outcome of \<open>IdleSource.query()\<close>, the idle duration in seconds; a failed query
  counts as Idle.
\<close>

definition is_active :: "policy \<Rightarrow> exn + int \<Rightarrow> bool" where
  "is_active pol sample =
     (case sample of Inl e \<Rightarrow> False | Inr idle_duration \<Rightarrow> idle_duration < idle_threshold pol)"

definition status_label :: "bool \<Rightarrow> string" where
  "status_label active = (if active then ''active'' else ''idle'')"

text \<open>
  Modelled from the spec: \<open>update(now)\<close> of the accrual engine (\<open>tracker.py\<close> is missing).
  The value returned lists the warnings: a failed idle query is one.
\<close>

definition AccrualEngine_update :: "policy \<Rightarrow> int \<Rightarrow> exn + int \<Rightarrow> (string list, store) operation" where
  "AccrualEngine_update pol now sample st =
     (let active = is_active pol sample;
          warnings = (case sample of Inl e \<Rightarrow> [''idle query failed: '' @ str_exn e] | Inr _ \<Rightarrow> [])
      in
      case Store_get_today now st of
        (Inl e, st1) \<Rightarrow> (Inl e, st1)
      | (Inr log, st1) \<Rightarrow>
          (let elapsed = clamp (now - last_update log) 0 (max_tick_gap pol);
               new_total = (if active then total_active_time log + elapsed
                            else total_active_time log)
           in
           case Store_upsert_today now new_total now st1 of
             (Inl e, st2) \<Rightarrow> (Inl e, st2)
           | (Inr _, st2) \<Rightarrow> (Inr warnings, st2)))"

text \<open>
  Modelled from the spec: \<open>status(now)\<close> of the accrual engine (\<open>tracker.py\<close> is missing):
  the label, the total and the last update of today's row.
\<close>

definition AccrualEngine_status ::
  "policy \<Rightarrow> int \<Rightarrow> exn + int \<Rightarrow> (string \<times> int \<times> int, store) operation" where
  "AccrualEngine_status pol now sample st =
     (let active = is_active pol sample in
      case Store_get_today now st of
        (Inl e, st1) \<Rightarrow> (Inl e, st1)
      | (Inr log, st1) \<Rightarrow>
          (Inr (status_label active, total_active_time log, last_update log), st1))"

text \<open>
  Modelled from the spec: the topic of the published status message (\<open>mqtt_client.py\<close>
  is missing).
\<close>

definition status_topic :: "config \<Rightarrow> string \<Rightarrow> string" where
  "status_topic cfg host_identifier = topic_prefix cfg @ ''/'' @ host_identifier @ ''/status''"

text \<open>What a read of the total of a date returns: zero where the date has no row yet.\<close>

definition stored_total :: "store \<Rightarrow> int \<Rightarrow> int" where
  "stored_total st d = (case db st d of None \<Rightarrow> 0 | Some row \<Rightarrow> total_active_time row)"

text \<open>
  A sequence of ticks, each a process of its own given the time and the idle sample it
  finds: a tick that fails leaves the Store to the next one.
\<close>

fun run_ticks :: "policy \<Rightarrow> (int \<times> (exn + int)) list \<Rightarrow> store \<Rightarrow> store" where
  "run_ticks pol [] st = st"
| "run_ticks pol ((now, sample) # ticks) st =
     run_ticks pol ticks (snd (AccrualEngine_update pol now sample st))"

text \<open>A sequence of status queries: what each returned, and the Store after the last.\<close>

fun run_status ::
  "policy \<Rightarrow> (int \<times> (exn + int)) list \<Rightarrow> store \<Rightarrow> (exn + string \<times> int \<times> int) list \<times> store" where
  "run_status pol [] st = ([], st)"
| "run_status pol ((now, sample) # queries) st =
     (case AccrualEngine_status pol now sample st of
        (r, st1) \<Rightarrow> (case run_status pol queries st1 of (rs, st2) \<Rightarrow> (r # rs, st2)))"

text \<open>
  Modelled from the spec: the collaborators of \<open>cli.py\<close> as the specification describes
  them (\<open>tracker.py\<close> and \<open>database.py\<close> are missing). \<open>get_current_status\<close> yields the
  pair \<open>cli.py\<close> unpacks; constructing a tracker or a database handle and closing the
  handle touch no row. The operations of the other modules are those of \<open>C\<close>.
\<close>

definition tracker_collaborators ::
  "policy \<Rightarrow> int \<Rightarrow> exn + int \<Rightarrow> store collaborators \<Rightarrow> store collaborators" where
  "tracker_collaborators pol now sample C =
     C\<lparr>WorkTracker_new := (\<lambda>st. (Inr (), st)),
       get_current_status :=
         (\<lambda>st. case AccrualEngine_status pol now sample st of
                 (Inl e, st1) \<Rightarrow> (Inl e, st1)
               | (Inr (status_str, total_seconds, updated), st1) \<Rightarrow>
                   (Inr (status_str, total_seconds), st1)),
       update_time :=
         (\<lambda>st. case AccrualEngine_update pol now sample st of
                 (Inl e, st1) \<Rightarrow> (Inl e, st1)
               | (Inr warnings, st1) \<Rightarrow> (Inr (), st1)),
       Database_new := (\<lambda>st. (Inr (), st)),
       get_today_log := Store_get_today now,
       db_close := (\<lambda>st. (Inr (), st))\<rparr>"

section \<open>Observations and sample runs\<close>

text \<open>The number a string of decimal digits denotes, to read a rendered field back.\<close>

definition decimal_value :: "string \<Rightarrow> nat" where
  "decimal_value s = foldl (\<lambda>a c. 10 * a + (of_char c - 48)) 0 s"

definition is_digit :: "char \<Rightarrow> bool" where
  "is_digit c = (48 \<le> (of_char c :: nat) \<and> (of_char c :: nat) \<le> 57)"

text \<open>The world a command starts in: nothing printed, logged or called yet.\<close>

definition start :: "'s \<Rightarrow> 's world" where
  "start s = \<lparr>stdout = [], logged = [], calls = [], env = s\<rparr>"

text \<open>
  Collaborators of a healthy installation, for the sample runs: the timer is installed,
  enabled and running, the Store answers with a row of 3725 seconds last updated at
  09:15, the configuration loads and the broker accepts every request. The publisher's
  loop sees the client stopped at its first look.
\<close>

definition healthy :: "'s collaborators" where
  "healthy =
     \<lparr>is_timer_installed = (\<lambda>s. (Inr True, s)),
      is_timer_running = (\<lambda>s. (Inr True, s)),
      is_timer_enabled = (\<lambda>s. (Inr True, s)),
      WorkTracker_new = (\<lambda>s. (Inr (), s)),
      get_current_status = (\<lambda>s. (Inr (''active'', 3725), s)),
      update_time = (\<lambda>s. (Inr (), s)),
      Database_new = (\<lambda>s. (Inr (), s)),
      get_today_log =
        (\<lambda>s. (Inr \<lparr>log_date = 20000, total_active_time = 3725, last_update = 1728033300\<rparr>, s)),
      db_close = (\<lambda>s. (Inr (), s)),
      load_config =
        (\<lambda>s. (Inr \<lparr>broker_ip = ''192.168.1.10'', port = 1883, topic_prefix = ''worktracker'',
                     update_interval = 60, qos = 1\<rparr>, s)),
      MQTTClient_new = (\<lambda>cfg s. (Inr (), s)),
      client_connect = (\<lambda>s. (Inr True, s)),
      client_publish_status = (\<lambda>s. (Inr True, s)),
      client_disconnect = (\<lambda>s. (Inr (), s)),
      client_start = (\<lambda>s. (Inr True, s)),
      client_stop = (\<lambda>s. (Inr (), s)),
      client_is_running = (\<lambda>s. (Inr False, s)),
      time_sleep = (\<lambda>s. (Inr (), s))\<rparr>"

section \<open>Properties of the Home Assistant configuration\<close>

lemma unlines_Cons: "unlines (l # ls) = l @ CHR 0x0A # unlines ls"
  by (simp add: unlines_def)

lemma unlines_Nil: "unlines [] = []"
  by (simp add: unlines_def)

lemma sublist_drop_prefix: "sublist (ps @ xs) ys \<Longrightarrow> sublist xs ys"
proof -
  assume "sublist (ps @ xs) ys"
  then obtain us vs where "ys = us @ (ps @ xs) @ vs"
    unfolding sublist_def by blast
  then have "ys = (us @ ps) @ xs @ vs"
    by simp
  then show "sublist xs ys"
    unfolding sublist_def by blast
qed

lemma yaml_config_state_topic:
  \<open>sublist (''      state_topic: "worktracker/'' @ h @ ''/status"'') (yaml_config h)\<close>
proof -
  have \<open>yaml_config h =
      unlines (take 5 (yaml_config_lines h))
      @ (''      state_topic: "worktracker/'' @ h @ ''/status"'')
      @ (CHR 0x0A # unlines (drop 6 (yaml_config_lines h)))\<close>
    by (simp add: yaml_config_def yaml_config_lines_def unlines_Cons unlines_Nil)
  then show ?thesis
    by (metis sublist_appendI)
qed

lemma yaml_config_unique_id:
  \<open>sublist (''      unique_id: "worktracker_'' @ h @ ''_daily_time"'') (yaml_config h)\<close>
proof -
  have \<open>yaml_config h =
      unlines (take 4 (yaml_config_lines h))
      @ (''      unique_id: "worktracker_'' @ h @ ''_daily_time"'')
      @ (CHR 0x0A # unlines (drop 5 (yaml_config_lines h)))\<close>
    by (simp add: yaml_config_def yaml_config_lines_def unlines_Cons unlines_Nil)
  then show ?thesis
    by (metis sublist_appendI)
qed

lemma yaml_config_state_topic_value:
  \<open>sublist (''state_topic: "worktracker/'' @ h @ ''/status"'') (yaml_config h)\<close>
  by (rule sublist_drop_prefix [of "''      ''"]) (use yaml_config_state_topic [of h] in simp)

lemma yaml_config_unique_id_value:
  \<open>sublist (''unique_id: "worktracker_'' @ h @ ''_daily_time"'') (yaml_config h)\<close>
  by (rule sublist_drop_prefix [of "''      ''"]) (use yaml_config_unique_id [of h] in simp)

lemma snd_generate_yaml_config: "snd (generate_yaml_config a (Some h)) = yaml_config h"
  by (simp add: generate_yaml_config_def)

text \<open>
  C10. For a hostname \<open>h\<close> that is given, \<open>generate_yaml_config\<close> returns the same string
  whatever the machine's own hostname is and performs no ambient lookup; the string
  holds \<open>worktracker/h/status\<close> as the state topic and \<open>worktracker_h_daily_time\<close> as the
  unique id. The ambient lookup is performed exactly when the argument is \<open>None\<close>.
\<close>

theorem generate_yaml_config_deterministic:
  \<open>generate_yaml_config a (Some h) = generate_yaml_config a' (Some h)
   \<and> fst (generate_yaml_config a (Some h)) = []
   \<and> sublist (''state_topic: "worktracker/'' @ h @ ''/status"'') (snd (generate_yaml_config a (Some h)))
   \<and> sublist (''unique_id: "worktracker_'' @ h @ ''_daily_time"'') (snd (generate_yaml_config a (Some h)))
   \<and> (GetHostname \<in> set (fst (generate_yaml_config a x)) \<longleftrightarrow> x = None)\<close>
proof -
  have lk: "GetHostname \<in> set (fst (generate_yaml_config a x)) \<longleftrightarrow> x = None"
    by (cases x) (simp_all add: generate_yaml_config_def)
  have det: "generate_yaml_config a (Some h) = generate_yaml_config a' (Some h)"
    and fs: "fst (generate_yaml_config a (Some h)) = []"
    by (simp_all add: generate_yaml_config_def)
  show ?thesis
    unfolding snd_generate_yaml_config
    using yaml_config_state_topic_value yaml_config_unique_id_value lk det fs by blast
qed

text \<open>
  C8, as stated, fails: with the topic prefix configured as \<open>home\<close> on the host \<open>pc\<close> the
  status message is published on \<open>home/pc/status\<close>, while the generated configuration
  names \<open>worktracker/pc/status\<close> as its state topic and holds \<open>home/pc/status\<close> nowhere.
\<close>

theorem state_topic_ignores_topic_prefix:
  \<open>status_topic \<lparr>broker_ip = ''10.0.0.2'', port = 1883, topic_prefix = ''home'',
                  update_interval = 60, qos = 1\<rparr> ''pc'' = ''home/pc/status''
   \<and> yaml_config_lines ''pc'' ! 5 = ''      state_topic: "worktracker/pc/status"''
   \<and> \<not> sublist ''home/pc/status'' (snd (generate_yaml_config ''pc'' (Some ''pc'')))\<close>
  by (simp add: status_topic_def generate_yaml_config_def yaml_config_def yaml_config_lines_def
      unlines_Cons unlines_Nil sublist_Cons_right)

text \<open>
  C8, amended. The status message is published on the configured topic prefix, \<open>/\<close>, the
  host identifier and \<open>/status\<close>. The state topic of the generated Home Assistant
  configuration is \<open>worktracker\<close>, \<open>/\<close>, the host identifier and \<open>/status\<close> for every host:
  \<open>generate_yaml_config\<close> takes no topic prefix. The two topics are equal exactly when
  the configured prefix is \<open>worktracker\<close>.
\<close>

theorem state_topic_fixed_prefix:
  \<open>status_topic cfg h = topic_prefix cfg @ ''/'' @ h @ ''/status''
   \<and> yaml_config_lines h ! 5 = ''      state_topic: "'' @ ''worktracker'' @ ''/'' @ h @ ''/status'' @ ''"''
   \<and> sublist (''state_topic: "'' @ ''worktracker'' @ ''/'' @ h @ ''/status'' @ ''"'')
        (snd (generate_yaml_config a (Some h)))
   \<and> (''worktracker'' @ ''/'' @ h @ ''/status'' = status_topic cfg h
        \<longleftrightarrow> topic_prefix cfg = ''worktracker'')\<close>
proof -
  have eq: "''worktracker'' @ ''/'' @ h @ ''/status'' = status_topic cfg h
              \<longleftrightarrow> topic_prefix cfg = ''worktracker''"
    unfolding status_topic_def append_same_eq by (rule eq_commute)
  have tp: "status_topic cfg h = topic_prefix cfg @ ''/'' @ h @ ''/status''"
    by (simp add: status_topic_def)
  have ln: \<open>yaml_config_lines h ! 5
            = ''      state_topic: "'' @ ''worktracker'' @ ''/'' @ h @ ''/status'' @ ''"''\<close>
    by (simp add: yaml_config_lines_def)
  have st: \<open>sublist (''state_topic: "'' @ ''worktracker'' @ ''/'' @ h @ ''/status'' @ ''"'')
              (yaml_config h)\<close>
    using yaml_config_state_topic_value [of h] by simp
  show ?thesis
    unfolding snd_generate_yaml_config using tp ln st eq by blast
qed

section \<open>Properties of the command line\<close>

lemmas prog_defs =
  bnd_def ret_def raise_def try_except_def print_def logging_error_def call_def stdlib_def

text \<open>
  C4. The update command has no argument of its own: it runs against the collaborators
  and the world it finds. Once the tracker is constructed, it returns 0 when
  \<open>update_time\<close> returns, logging nothing; when \<open>update_time\<close> raises an \<open>Exception\<close>
  (a Store error among them) it returns 1 and logs \<open>Update error:\<close> with the cause.
\<close>

theorem update_exit_code:
  assumes "WorkTracker_new C (env w) = (Inr (), s1)"
  shows "(update_time C s1 = (Inr (), s2) \<longrightarrow>
            WorkTrackerCLI_update C w =
              (Inr 0, w\<lparr>calls := calls w @ [WorkTracker_init, WorkTracker_update_time], env := s2\<rparr>))
       \<and> (update_time C s1 = (Inl e, s2) \<and> is_Exception e \<longrightarrow>
            WorkTrackerCLI_update C w =
              (Inr 1, w\<lparr>logged := logged w @ [''Update error: '' @ str_exn e],
                        calls := calls w @ [WorkTracker_init, WorkTracker_update_time], env := s2\<rparr>))"
  using assms by (simp add: WorkTrackerCLI_update_def prog_defs)

theorem update_exit_code_witness:
  "WorkTrackerCLI_update healthy (start ()) =
     (Inr 0, \<lparr>stdout = [], logged = [], calls = [WorkTracker_init, WorkTracker_update_time], env = ()\<rparr>)
   \<and> WorkTrackerCLI_update (healthy\<lparr>update_time := (\<lambda>s. (Inl (StoreError ''disk I/O error''), s))\<rparr>) (start ()) =
     (Inr 1, \<lparr>stdout = [], logged = [''Update error: disk I/O error''],
              calls = [WorkTracker_init, WorkTracker_update_time], env = ()\<rparr>)"
  using update_exit_code [of healthy "start ()" "()" "()" "StoreError ''x''"]
    update_exit_code [of "healthy\<lparr>update_time := (\<lambda>s. (Inl (StoreError ''disk I/O error''), s))\<rparr>" "start ()" "()" "()" "StoreError ''disk I/O error''"]
  by (simp add: healthy_def start_def)

text \<open>
  C6. When \<open>load_config\<close> raises \<open>FileNotFoundError\<close> (the file is missing) or
  \<open>ValueError\<close> (a value is malformed or out of range), the daemon start and the
  one-shot publish print the cause and return 1 having called nothing but
  \<open>load_config\<close>: no client is constructed, started or connected. The configuration
  display calls nothing but \<open>load_config\<close> whatever it yields, and prints the
  configuration it loaded.
\<close>

theorem config_error_before_connection:
  "(load_config C (env w) = (Inl (FileNotFoundError m), s1) \<longrightarrow>
      WorkTrackerCLI_mqtt_start C w =
        Some (Inr 1, w\<lparr>stdout := stdout w @ [''Starting MQTT publisher...'', ''ERROR: '' @ m],
                        calls := calls w @ [Load_config], env := s1\<rparr>)
      \<and> WorkTrackerCLI_mqtt_publish C w =
        (Inr 1, w\<lparr>stdout := stdout w @ [''Publishing status to MQTT broker...'', ''ERROR: '' @ m],
                  calls := calls w @ [Load_config], env := s1\<rparr>))
   \<and> (load_config C (env w) = (Inl (ValueError m), s1) \<longrightarrow>
      WorkTrackerCLI_mqtt_start C w =
        Some (Inr 1, w\<lparr>stdout := stdout w @ [''Starting MQTT publisher...'',
                                               ''ERROR: Invalid configuration: '' @ m],
                        calls := calls w @ [Load_config], env := s1\<rparr>)
      \<and> WorkTrackerCLI_mqtt_publish C w =
        (Inr 1, w\<lparr>stdout := stdout w @ [''Publishing status to MQTT broker...'',
                                         ''ERROR: Invalid configuration: '' @ m],
                  calls := calls w @ [Load_config], env := s1\<rparr>))
   \<and> calls (snd (WorkTrackerCLI_mqtt_status C w)) = calls w @ [Load_config]
   \<and> (load_config C (env w) = (Inr cfg, s1) \<longrightarrow>
      WorkTrackerCLI_mqtt_status C w =
        (Inr 0, w\<lparr>stdout := stdout w @
                    [''MQTT Configuration:'',
                     ''  Broker: '' @ broker_ip cfg @ '':'' @ str_int (port cfg),
                     ''  Topic prefix: '' @ topic_prefix cfg,
                     ''  Update interval: '' @ str_int (update_interval cfg) @ ''s'',
                     ''  QoS: '' @ str_int (qos cfg),
                     [CHR 0x0A] @ ''NOTE: Use '' @ [CHR 0x27] @ ''worktracker mqtt start''
                       @ [CHR 0x27] @ '' to run the publisher.''],
                  calls := calls w @ [Load_config], env := s1\<rparr>))"
proof -
  have start_fnf: "load_config C (env w) = (Inl (FileNotFoundError m), s1) \<Longrightarrow>
      WorkTrackerCLI_mqtt_start C w =
        Some (Inr 1, w\<lparr>stdout := stdout w @ [''Starting MQTT publisher...'', ''ERROR: '' @ m],
                        calls := calls w @ [Load_config], env := s1\<rparr>)"
    by (simp add: WorkTrackerCLI_mqtt_start_def mqtt_start_setup_def config_except_def prog_defs)
  have start_val: "load_config C (env w) = (Inl (ValueError m), s1) \<Longrightarrow>
      WorkTrackerCLI_mqtt_start C w =
        Some (Inr 1, w\<lparr>stdout := stdout w @ [''Starting MQTT publisher...'',
                                               ''ERROR: Invalid configuration: '' @ m],
                        calls := calls w @ [Load_config], env := s1\<rparr>)"
    by (simp add: WorkTrackerCLI_mqtt_start_def mqtt_start_setup_def config_except_def prog_defs)
  have pub_fnf: "load_config C (env w) = (Inl (FileNotFoundError m), s1) \<Longrightarrow>
      WorkTrackerCLI_mqtt_publish C w =
        (Inr 1, w\<lparr>stdout := stdout w @ [''Publishing status to MQTT broker...'', ''ERROR: '' @ m],
                  calls := calls w @ [Load_config], env := s1\<rparr>)"
    by (simp add: WorkTrackerCLI_mqtt_publish_def config_except_def prog_defs)
  have pub_val: "load_config C (env w) = (Inl (ValueError m), s1) \<Longrightarrow>
      WorkTrackerCLI_mqtt_publish C w =
        (Inr 1, w\<lparr>stdout := stdout w @ [''Publishing status to MQTT broker...'',
                                         ''ERROR: Invalid configuration: '' @ m],
                  calls := calls w @ [Load_config], env := s1\<rparr>)"
    by (simp add: WorkTrackerCLI_mqtt_publish_def config_except_def prog_defs)
  have status_calls: "calls (snd (WorkTrackerCLI_mqtt_status C w)) = calls w @ [Load_config]"
    by (cases "load_config C (env w)")
       (auto simp add: WorkTrackerCLI_mqtt_status_def config_except_def prog_defs
             split: sum.splits exn.splits)
  have status_ok: "load_config C (env w) = (Inr cfg, s1) \<Longrightarrow>
      WorkTrackerCLI_mqtt_status C w =
        (Inr 0, w\<lparr>stdout := stdout w @
                    [''MQTT Configuration:'',
                     ''  Broker: '' @ broker_ip cfg @ '':'' @ str_int (port cfg),
                     ''  Topic prefix: '' @ topic_prefix cfg,
                     ''  Update interval: '' @ str_int (update_interval cfg) @ ''s'',
                     ''  QoS: '' @ str_int (qos cfg),
                     [CHR 0x0A] @ ''NOTE: Use '' @ [CHR 0x27] @ ''worktracker mqtt start''
                       @ [CHR 0x27] @ '' to run the publisher.''],
                  calls := calls w @ [Load_config], env := s1\<rparr>)"
    by (simp add: WorkTrackerCLI_mqtt_status_def config_except_def prog_defs)
  show ?thesis
    using start_fnf start_val pub_fnf pub_val status_calls status_ok by blast
qed

theorem config_error_before_connection_witness:
  "WorkTrackerCLI_mqtt_start
      (healthy\<lparr>load_config := (\<lambda>s. (Inl (FileNotFoundError ''no mqtt.yaml''), s))\<rparr>) (start ()) =
     Some (Inr 1, \<lparr>stdout = [''Starting MQTT publisher...'', ''ERROR: no mqtt.yaml''],
                   logged = [], calls = [Load_config], env = ()\<rparr>)
   \<and> WorkTrackerCLI_mqtt_publish
      (healthy\<lparr>load_config := (\<lambda>s. (Inl (ValueError ''qos must be 0, 1 or 2''), s))\<rparr>) (start ()) =
     (Inr 1, \<lparr>stdout = [''Publishing status to MQTT broker...'',
                         ''ERROR: Invalid configuration: qos must be 0, 1 or 2''],
              logged = [], calls = [Load_config], env = ()\<rparr>)
   \<and> calls (snd (WorkTrackerCLI_mqtt_status healthy (start ()))) = [Load_config]"
  using config_error_before_connection
          [of "healthy\<lparr>load_config := (\<lambda>s. (Inl (FileNotFoundError ''no mqtt.yaml''), s))\<rparr>"
              "start ()" "''no mqtt.yaml''" "()"]
        config_error_before_connection
          [of "healthy\<lparr>load_config := (\<lambda>s. (Inl (ValueError ''qos must be 0, 1 or 2''), s))\<rparr>"
              "start ()" "''qos must be 0, 1 or 2''" "()"]
        config_error_before_connection [of healthy "start ()"]
  by (simp add: healthy_def start_def)

text \<open>
  C7. With the configuration loaded and the tracker and the client constructed, the
  one-shot publish connects first. If the connection fails it returns 1 and neither
  publishes nor disconnects. If it succeeds, the command publishes once, disconnects
  once on either outcome of the publication, and returns 0 exactly when the
  publication succeeded.
\<close>

theorem publish_once_sequence:
  assumes "load_config C (env w) = (Inr cfg, s1)"
    and "WorkTracker_new C s1 = (Inr (), s2)"
    and "MQTTClient_new C cfg s2 = (Inr (), s3)"
  shows "(client_connect C s3 = (Inr False, s4) \<longrightarrow>
            WorkTrackerCLI_mqtt_publish C w =
              (Inr 1, w\<lparr>stdout := stdout w @ [''Publishing status to MQTT broker...'',
                                               ''ERROR: Failed to connect to MQTT broker''],
                        calls := calls w @ [Load_config, WorkTracker_init, MQTTClient_init,
                                            MQTTClient_connect],
                        env := s4\<rparr>))
       \<and> (client_connect C s3 = (Inr True, s4) \<and> client_publish_status C s4 = (Inr published, s5)
            \<and> client_disconnect C s5 = (Inr (), s6) \<longrightarrow>
            WorkTrackerCLI_mqtt_publish C w =
              (Inr (if published then 0 else 1),
               w\<lparr>stdout := stdout w @ [''Publishing status to MQTT broker...'',
                                      if published then check_mark @ '' Status published successfully''
                                      else ''ERROR: Failed to publish status''],
                 calls := calls w @ [Load_config, WorkTracker_init, MQTTClient_init,
                                     MQTTClient_connect, MQTTClient_publish_status,
                                     MQTTClient_disconnect],
                 env := s6\<rparr>))"
  using assms by (simp add: WorkTrackerCLI_mqtt_publish_def config_except_def prog_defs)

theorem publish_once_sequence_witness:
  "WorkTrackerCLI_mqtt_publish healthy (start ()) =
     (Inr 0, \<lparr>stdout = [''Publishing status to MQTT broker...'',
                         check_mark @ '' Status published successfully''],
              logged = [],
              calls = [Load_config, WorkTracker_init, MQTTClient_init, MQTTClient_connect,
                       MQTTClient_publish_status, MQTTClient_disconnect],
              env = ()\<rparr>)
   \<and> WorkTrackerCLI_mqtt_publish (healthy\<lparr>client_publish_status := (\<lambda>s. (Inr False, s))\<rparr>) (start ()) =
     (Inr 1, \<lparr>stdout = [''Publishing status to MQTT broker...'', ''ERROR: Failed to publish status''],
              logged = [],
              calls = [Load_config, WorkTracker_init, MQTTClient_init, MQTTClient_connect,
                       MQTTClient_publish_status, MQTTClient_disconnect],
              env = ()\<rparr>)
   \<and> WorkTrackerCLI_mqtt_publish (healthy\<lparr>client_connect := (\<lambda>s. (Inr False, s))\<rparr>) (start ()) =
     (Inr 1, \<lparr>stdout = [''Publishing status to MQTT broker...'',
                         ''ERROR: Failed to connect to MQTT broker''],
              logged = [],
              calls = [Load_config, WorkTracker_init, MQTTClient_init, MQTTClient_connect],
              env = ()\<rparr>)"
  using publish_once_sequence
          [of healthy "start ()"
              "\<lparr>broker_ip = ''192.168.1.10'', port = 1883, topic_prefix = ''worktracker'',
                update_interval = 60, qos = 1\<rparr>" "()" "()" "()" "()" True "()" "()"]
        publish_once_sequence
          [of "healthy\<lparr>client_publish_status := (\<lambda>s. (Inr False, s))\<rparr>" "start ()"
              "\<lparr>broker_ip = ''192.168.1.10'', port = 1883, topic_prefix = ''worktracker'',
                update_interval = 60, qos = 1\<rparr>" "()" "()" "()" "()" False "()" "()"]
        publish_once_sequence
          [of "healthy\<lparr>client_connect := (\<lambda>s. (Inr False, s))\<rparr>" "start ()"
              "\<lparr>broker_ip = ''192.168.1.10'', port = 1883, topic_prefix = ''worktracker'',
                update_interval = 60, qos = 1\<rparr>" "()" "()" "()" "()" False "()" "()"]
  by (simp add: healthy_def start_def)

end
